theory Spec2Isabelle
  imports Main "HOL-Library.Word"
begin

section \<open>Runtime: typed values behind a witness table (Box.h, Box.cpp)\<close>

text \<open>
  Pointers are addresses; \<open>nullptr\<close> is address 0. Raw storage is a byte memory. The
  objects a pointer can refer to (Value objects, TypeMetadata objects) are kept in
  partial maps from addresses, so that following a pointer with no object behind it is
  a branch of the model and not an unspecified value.
\<close>

type_synonym addr = nat

definition nullptr :: addr where
  "nullptr = 0"

type_synonym byte = "8 word"

type_synonym memory = "addr \<Rightarrow> byte"

text \<open>
  What C++ leaves undefined, or answers with an exception, is a fault of the model:
  following a pointer that refers to no object, reading the member \<open>value\<close> that no
  constructor has set, calling a \<open>std::function\<close> that holds no target
  (\<open>std::bad_function_call\<close>), \<open>memcpy\<close> between overlapping regions, and flowing off
  the end of a function that is declared to return a value.
\<close>

datatype fault =
  InvalidPointer | IndeterminateValue | BadFunctionCall | OverlappingCopy | MissingReturn

text \<open>
  \<open>SiltCopyFunction = std::function<void *(Value *dst, Value *src)>\<close>, and
  \<open>SiltMoveFunction\<close> is the same type, so either slot can hold either of
  \<open>trivialCopy\<close> and \<open>trivialMove\<close>. A \<open>std::function\<close> holds nothing, one of the
  functions of Box.cpp, or a closure of the type's own. Such a closure is represented by
  its effect on the byte memory, given the two handles it is called with.
\<close>

datatype SiltCopyFunction =
    copy_fn_empty
  | copy_fn_trivialCopy
  | copy_fn_trivialMove
  | copy_fn_closure "addr \<Rightarrow> addr \<Rightarrow> memory \<Rightarrow> memory"

type_synonym SiltMoveFunction = SiltCopyFunction

datatype SiltDestroyFunction =
    destroy_fn_empty
  | destroy_fn_trivialDestroy
  | destroy_fn_closure "addr \<Rightarrow> memory \<Rightarrow> memory"

record WitnessTable =
  copy :: SiltCopyFunction
  move :: SiltMoveFunction
  destroy :: SiltDestroyFunction

record StringRef =
  data :: addr
  length_StringRef :: "64 word"

record TypeMetadata =
  name :: StringRef
  sizeInBytes :: "64 word"

text \<open>
  class Value: a pointer to the type metadata, the witness table (held by value) and the
  pointer \<open>value\<close> to the storage. \<open>None\<close> in \<open>value\<close> is the indeterminate pointer of a
  member that was never initialised.
\<close>

record Value =
  typeMetadata :: addr
  witnessTable :: WitnessTable
  "value" :: "addr option"

text \<open>
  The calls made through the slots of a witness table, in the order they are made:
  \<open>CopyCall dst src\<close>, \<open>MoveCall dst src\<close>, \<open>DestroyCall v\<close>. The list is the
  instrumentation that counts the invocations of a type's operations.
\<close>

datatype call = CopyCall addr addr | MoveCall addr addr | DestroyCall addr

record runtime =
  objects :: "addr \<rightharpoonup> Value"
  descriptors :: "addr \<rightharpoonup> TypeMetadata"
  storage :: memory
  calls :: "call list"

definition record_call :: "call \<Rightarrow> runtime \<Rightarrow> runtime" where
  "record_call c s = s\<lparr>calls := calls s @ [c]\<rparr>"

text \<open>
  \<open>Value(typeMetadata, witnessTable): typeMetadata(typeMetadata),
  witnessTable(witnessTable) {}\<close>: the constructor has two parameters and two member
  initialisers; the member \<open>value\<close> is not among them.
\<close>

definition Value_ctor :: "addr \<Rightarrow> WitnessTable \<Rightarrow> Value" where
  "Value_ctor tm wt = \<lparr>typeMetadata = tm, witnessTable = wt, value = None\<rparr>"

definition getTypeMetadata :: "Value \<Rightarrow> addr" where
  "getTypeMetadata v = typeMetadata v"

definition getValue :: "Value \<Rightarrow> addr option" where
  "getValue v = Value.value v"

definition getWitnessTable :: "Value \<Rightarrow> WitnessTable" where
  "getWitnessTable v = witnessTable v"

text \<open>
  \<open>memcpy(dst, src, n)\<close> of the C library: the \<open>n\<close> bytes at \<open>src\<close> are written at
  \<open>dst\<close>, every other byte is kept; undefined when the two regions overlap.
\<close>

definition memcpy :: "addr \<Rightarrow> addr \<Rightarrow> nat \<Rightarrow> memory \<Rightarrow> fault + memory" where
  "memcpy d p n m =
     (if 0 < n \<and> d < p + n \<and> p < d + n then Inl OverlappingCopy
      else Inr (\<lambda>a. if d \<le> a \<and> a < d + n then m (p + (a - d)) else m a))"

text \<open>
  \<open>void *trivialDestroy(Value *value) { }\<close>: an empty body in a function declared to
  return a pointer. Control flows off the end of a function that is to return a value,
  which C++ leaves undefined whether or not the caller uses the result.
\<close>

definition trivialDestroy :: "addr \<Rightarrow> runtime \<Rightarrow> fault + runtime" where
  "trivialDestroy v s = Inl MissingReturn"

text \<open>\<open>void destroy() { witnessTable.destroy(this); }\<close>\<close>

definition Value_destroy :: "addr \<Rightarrow> runtime \<Rightarrow> fault + runtime" where
  "Value_destroy this s =
     (case objects s this of
        None \<Rightarrow> Inl InvalidPointer
      | Some v \<Rightarrow>
         (case destroy (witnessTable v) of
            destroy_fn_empty \<Rightarrow> Inl BadFunctionCall
          | destroy_fn_trivialDestroy \<Rightarrow> trivialDestroy this (record_call (DestroyCall this) s)
          | destroy_fn_closure f \<Rightarrow>
              Inr ((record_call (DestroyCall this) s)\<lparr>storage := f this (storage s)\<rparr>)))"

text \<open>
  The two lines shared by \<open>trivialCopy\<close> and \<open>trivialMove\<close>:
  \<open>size_t size = dst->getTypeMetadata()->sizeInBytes;
  memcpy(dst->getValue(), src->getValue(), size);\<close>
  The size is the destination's; \<open>size_t\<close> is taken to be 64 bits wide, as
  \<open>sizeInBytes\<close> is.
\<close>

definition copy_bytes :: "addr \<Rightarrow> addr \<Rightarrow> runtime \<Rightarrow> fault + runtime" where
  "copy_bytes dst src s =
     (case objects s dst of
        None \<Rightarrow> Inl InvalidPointer
      | Some dv \<Rightarrow>
         (case descriptors s (getTypeMetadata dv) of
            None \<Rightarrow> Inl InvalidPointer
          | Some tm \<Rightarrow>
             (case getValue dv of
                None \<Rightarrow> Inl IndeterminateValue
              | Some d \<Rightarrow>
                 (case objects s src of
                    None \<Rightarrow> Inl InvalidPointer
                  | Some sv \<Rightarrow>
                     (case getValue sv of
                        None \<Rightarrow> Inl IndeterminateValue
                      | Some p \<Rightarrow>
                         (case memcpy d p (unat (sizeInBytes tm)) (storage s) of
                            Inl e \<Rightarrow> Inl e
                          | Inr m \<Rightarrow> Inr (s\<lparr>storage := m\<rparr>)))))))"

text \<open>\<open>trivialCopy(dst, src)\<close>: the byte copy, then \<open>return dst\<close>.\<close>

definition trivialCopy :: "addr \<Rightarrow> addr \<Rightarrow> runtime \<Rightarrow> fault + (addr \<times> runtime)" where
  "trivialCopy dst src s =
     (case copy_bytes dst src s of
        Inl e \<Rightarrow> Inl e
      | Inr s1 \<Rightarrow> Inr (dst, s1))"

text \<open>\<open>trivialMove(dst, src)\<close>: the byte copy, then \<open>src->destroy()\<close>, then \<open>return dst\<close>.\<close>

definition trivialMove :: "addr \<Rightarrow> addr \<Rightarrow> runtime \<Rightarrow> fault + (addr \<times> runtime)" where
  "trivialMove dst src s =
     (case copy_bytes dst src s of
        Inl e \<Rightarrow> Inl e
      | Inr s1 \<Rightarrow>
         (case Value_destroy src s1 of
            Inl e \<Rightarrow> Inl e
          | Inr s2 \<Rightarrow> Inr (dst, s2)))"

text \<open>
  Calling a \<open>std::function\<close> of the copy/move signature on \<open>(dst, src)\<close>. Both callers,
  \<open>Value::copy\<close> and \<open>Value::move\<close>, drop the pointer it returns. The call is recorded
  by the caller; an empty function throws and leaves no state behind, so the record is
  lost with it.
\<close>

definition invoke :: "SiltCopyFunction \<Rightarrow> addr \<Rightarrow> addr \<Rightarrow> runtime \<Rightarrow> fault + runtime" where
  "invoke f dst src s =
     (case f of
        copy_fn_empty \<Rightarrow> Inl BadFunctionCall
      | copy_fn_trivialCopy \<Rightarrow> map_sum id snd (trivialCopy dst src s)
      | copy_fn_trivialMove \<Rightarrow> map_sum id snd (trivialMove dst src s)
      | copy_fn_closure g \<Rightarrow> Inr (s\<lparr>storage := g dst src (storage s)\<rparr>))"

text \<open>\<open>void copy(Value *dst) { witnessTable.copy(dst, this); }\<close>\<close>

definition Value_copy :: "addr \<Rightarrow> addr \<Rightarrow> runtime \<Rightarrow> fault + runtime" where
  "Value_copy this dst s =
     (case objects s this of
        None \<Rightarrow> Inl InvalidPointer
      | Some v \<Rightarrow>
         invoke (copy (witnessTable v)) dst this (record_call (CopyCall dst this) s))"

text \<open>\<open>void move(Value *dst) { witnessTable.move(dst, this); }\<close>\<close>

definition Value_move :: "addr \<Rightarrow> addr \<Rightarrow> runtime \<Rightarrow> fault + runtime" where
  "Value_move this dst s =
     (case objects s this of
        None \<Rightarrow> Inl InvalidPointer
      | Some v \<Rightarrow>
         invoke (move (witnessTable v)) dst this (record_call (MoveCall dst this) s))"

text \<open>\<open>void initializeWithCopy(Value *value) { value->copy(this); }\<close>\<close>

definition initializeWithCopy :: "addr \<Rightarrow> addr \<Rightarrow> runtime \<Rightarrow> fault + runtime" where
  "initializeWithCopy this v s = Value_copy v this s"

text \<open>\<open>void initializeWithTake(Value *value) { value->move(this); value->destroy(); }\<close>\<close>

definition initializeWithTake :: "addr \<Rightarrow> addr \<Rightarrow> runtime \<Rightarrow> fault + runtime" where
  "initializeWithTake this v s =
     (case Value_move v this s of
        Inl e \<Rightarrow> Inl e
      | Inr s1 \<Rightarrow> Value_destroy v s1)"

text \<open>\<open>silt_copyValue(dst, src)\<close>: \<open>srcBox->copy(dstBox); return dstBox;\<close>\<close>

definition silt_copyValue :: "addr \<Rightarrow> addr \<Rightarrow> runtime \<Rightarrow> fault + (addr \<times> runtime)" where
  "silt_copyValue dst src s =
     (case Value_copy src dst s of
        Inl e \<Rightarrow> Inl e
      | Inr s1 \<Rightarrow> Inr (dst, s1))"

text \<open>\<open>silt_moveValue(dst, src)\<close>: \<open>srcBox->move(dstBox); return dstBox;\<close>\<close>

definition silt_moveValue :: "addr \<Rightarrow> addr \<Rightarrow> runtime \<Rightarrow> fault + (addr \<times> runtime)" where
  "silt_moveValue dst src s =
     (case Value_move src dst s of
        Inl e \<Rightarrow> Inl e
      | Inr s1 \<Rightarrow> Inr (dst, s1))"

text \<open>\<open>silt_destroyValue(value)\<close>: \<open>box->destroy(); delete box;\<close>\<close>

definition silt_destroyValue :: "addr \<Rightarrow> runtime \<Rightarrow> fault + runtime" where
  "silt_destroyValue v s =
     (case Value_destroy v s of
        Inl e \<Rightarrow> Inl e
      | Inr s1 \<Rightarrow> Inr (s1\<lparr>objects := (objects s1)(v := None)\<rparr>))"

text \<open>
  The witness table of a trivial type: the three shared functions of Box.cpp, each in
  the slot of its name.
\<close>

definition trivialTable :: WitnessTable where
  "trivialTable =
     \<lparr>copy = copy_fn_trivialCopy, move = copy_fn_trivialMove,
      destroy = destroy_fn_trivialDestroy\<rparr>"

text \<open>The region of \<open>n\<close> bytes at \<open>p\<close>, and what it holds.\<close>

definition region :: "addr \<Rightarrow> nat \<Rightarrow> addr set" where
  "region p n = {a. p \<le> a \<and> a < p + n}"

definition contents :: "memory \<Rightarrow> addr \<Rightarrow> nat \<Rightarrow> byte list" where
  "contents m p n = map (\<lambda>i. m (p + i)) [0..<n]"

section \<open>Ferrite: boxed objects, the empty box, the allocator and the crash (ManagedObject.h,
  ManagedObject.cpp, Heap.cpp, Errors.cpp)\<close>

text \<open>
  \<open>ManagedObject<T>\<close>: two \<open>std::function\<close> members, a pointer to the type metadata and
  a pointer to the value. A \<open>std::function\<close> is \<open>None\<close> when it holds no target, as one
  built from \<open>nullptr\<close> does. A closure works on a world \<open>'w\<close> of its own (the memory
  behind the value pointers): \<open>SiltCopyFunction = std::function<void *(void *)>\<close> takes a
  value pointer and gives the pointer to the copy, \<open>SiltDestroyFunction\<close> takes a value
  pointer and gives nothing.
\<close>

record 'w ManagedObject =
  copyImpl :: "(addr \<Rightarrow> 'w \<Rightarrow> addr \<times> 'w) option"
  destroyImpl :: "(addr \<Rightarrow> 'w \<Rightarrow> 'w) option"
  metadata :: addr
  "value" :: addr

text \<open>The constructor initialises the four members from its four parameters.\<close>

definition ManagedObject_ctor ::
  "(addr \<Rightarrow> 'w \<Rightarrow> addr \<times> 'w) option \<Rightarrow> (addr \<Rightarrow> 'w \<Rightarrow> 'w) option \<Rightarrow> addr \<Rightarrow> addr
     \<Rightarrow> 'w ManagedObject" where
  "ManagedObject_ctor c d m v = \<lparr>copyImpl = c, destroyImpl = d, metadata = m, value = v\<rparr>"

record 'w ferrite =
  boxes :: "addr \<rightharpoonup> 'w ManagedObject"
  world :: 'w

text \<open>
  \<open>ManagedObject<T> copy() { return ManagedObject(copyImpl, destroyImpl, metadata,
  copyImpl(this->value)); }\<close>: the new object is returned by value; no member of
  \<open>*this\<close> is assigned.
\<close>

definition ManagedObject_copy ::
  "addr \<Rightarrow> 'w ferrite \<Rightarrow> fault + ('w ManagedObject \<times> 'w ferrite)" where
  "ManagedObject_copy this s =
     (case boxes s this of
        None \<Rightarrow> Inl InvalidPointer
      | Some b \<Rightarrow>
         (case copyImpl b of
            None \<Rightarrow> Inl BadFunctionCall
          | Some f \<Rightarrow>
             (case f (ManagedObject.value b) (world s) of
                (v, w) \<Rightarrow>
                  Inr (ManagedObject_ctor (copyImpl b) (destroyImpl b) (metadata b) v,
                       s\<lparr>world := w\<rparr>))))"

text \<open>\<open>void destroy() { destroyImpl(this->value); }\<close>\<close>

definition ManagedObject_destroy :: "addr \<Rightarrow> 'w ferrite \<Rightarrow> fault + 'w ferrite" where
  "ManagedObject_destroy this s =
     (case boxes s this of
        None \<Rightarrow> Inl InvalidPointer
      | Some b \<Rightarrow>
         (case destroyImpl b of
            None \<Rightarrow> Inl BadFunctionCall
          | Some f \<Rightarrow> Inr (s\<lparr>world := f (ManagedObject.value b) (world s)\<rparr>)))"

text \<open>
  The two objects of the anonymous namespace of ManagedObject.cpp. Where the linker puts
  them is a parameter.
\<close>

record globals =
  addr_emptyBoxStorageMetadata :: addr
  addr_EmptyBoxStorage :: addr

text \<open>
  Static initialisation:
  \<open>silt::OpaqueMetadata _emptyBoxStorageMetadata(nullptr, nullptr, nullptr, nullptr);\<close>
  and \<open>_SiltEmptyBox _EmptyBoxStorage = { _emptyBoxStorageMetadata, };\<close>, whose only member
  \<open>header\<close> is a copy of the first object and lies at the address of the struct.
\<close>

definition emptyBoxStorageMetadata :: "'w ManagedObject" where
  "emptyBoxStorageMetadata = ManagedObject_ctor None None nullptr nullptr"

definition static_init :: "globals \<Rightarrow> 'w \<Rightarrow> 'w ferrite" where
  "static_init g w =
     \<lparr>boxes = [addr_emptyBoxStorageMetadata g \<mapsto> emptyBoxStorageMetadata,
               addr_EmptyBoxStorage g \<mapsto> emptyBoxStorageMetadata],
      world = w\<rparr>"

text \<open>
  \<open>silt_allocEmptyBox()\<close>: the address of \<open>_EmptyBoxStorage\<close>, cast; the call that would
  retain the object is commented out.
\<close>

definition silt_allocEmptyBox :: "globals \<Rightarrow> 'w ferrite \<Rightarrow> addr \<times> 'w ferrite" where
  "silt_allocEmptyBox g s = (addr_EmptyBoxStorage g, s)"

text \<open>
  The process as the allocator and the crash see it: what has been written to \<open>stderr\<close>,
  and the heap of the C library. A call either returns a result or ends the process.
\<close>

record 'h process =
  stderr :: string
  heap :: 'h

datatype ('a, 'h) outcome = Returned 'a "'h process" | Aborted "'h process"

definition fputs :: "string \<Rightarrow> 'h process \<Rightarrow> 'h process" where
  "fputs str p = p\<lparr>stderr := stderr p @ str\<rparr>"

definition fputc :: "char \<Rightarrow> 'h process \<Rightarrow> 'h process" where
  "fputc c p = p\<lparr>stderr := stderr p @ [c]\<rparr>"

text \<open>\<open>silt::crash(message)\<close>: \<open>fputs(message, stderr); fputc('\n', stderr); abort();\<close>\<close>

definition crash :: "string \<Rightarrow> 'h process \<Rightarrow> ('a, 'h) outcome" where
  "crash message p = Aborted (fputc (CHR 0x0A) (fputs message p))"

text \<open>
  \<open>silt_alloc(bytes)\<close>: \<open>auto ptr = malloc(bytes); if (ptr == nullptr) { silt::crash(...); }
  return ptr;\<close>. \<open>malloc\<close> belongs to the C library and is a parameter: given the size
  asked for, it answers with a pointer and the heap it leaves.
\<close>

definition silt_alloc ::
  "(64 word \<Rightarrow> 'h process \<Rightarrow> addr \<times> 'h process) \<Rightarrow> 64 word \<Rightarrow> 'h process \<Rightarrow> (addr, 'h) outcome"
  where
  "silt_alloc malloc bytes p =
     (case malloc bytes p of
        (ptr, p1) \<Rightarrow>
          if ptr = nullptr then crash ''silt_alloc failed to allocate memory'' p1
          else Returned ptr p1)"

text \<open>\<open>silt_dealloc(value)\<close>: \<open>free(value);\<close>, with \<open>free\<close> a parameter as \<open>malloc\<close> is.\<close>

definition silt_dealloc ::
  "(addr \<Rightarrow> 'h process \<Rightarrow> 'h process) \<Rightarrow> addr \<Rightarrow> 'h process \<Rightarrow> 'h process" where
  "silt_dealloc free v p = free v p"

section \<open>Example states\<close>

text \<open>
  A pair of 8-byte integers: a type of size 16 with the trivial witness table. Value 1
  lies over the 16 bytes at 100, which hold (3, 4) in little-endian order; Value 2 lies
  over the 16 bytes at 200. Both refer to the descriptor at 3.
\<close>

definition pair_type :: TypeMetadata where
  "pair_type = \<lparr>name = \<lparr>data = nullptr, length_StringRef = 0\<rparr>, sizeInBytes = 16\<rparr>"

definition pair_example :: runtime where
  "pair_example =
     \<lparr>objects = [1 \<mapsto> \<lparr>typeMetadata = 3, witnessTable = trivialTable, value = Some 100\<rparr>,
                 2 \<mapsto> \<lparr>typeMetadata = 3, witnessTable = trivialTable, value = Some 200\<rparr>],
      descriptors = [3 \<mapsto> pair_type],
      storage = (\<lambda>a. if a = 100 then 3 else if a = 108 then 4 else 0),
      calls = []\<rparr>"

text \<open>
  The same state, but the move slot of Value 1 holds \<open>trivialCopy\<close>: a move operation
  that copies the bytes and does not destroy its source.
\<close>

definition flat_move_example :: runtime where
  "flat_move_example =
     pair_example\<lparr>objects := (objects pair_example)
       (1 \<mapsto> \<lparr>typeMetadata = 3,
               witnessTable = trivialTable\<lparr>move := copy_fn_trivialCopy\<rparr>,
               value = Some 100\<rparr>)\<rparr>"

text \<open>
  A counted handle: a type of size 16 whose destroy operation is a closure of its own,
  which decrements the counter in the byte at 300 and returns. Copy and move are the
  shared functions of Box.cpp. The counter starts at 2.
\<close>

definition counted_table :: WitnessTable where
  "counted_table =
     \<lparr>copy = copy_fn_trivialCopy, move = copy_fn_trivialMove,
      destroy = destroy_fn_closure (\<lambda>v m. m(300 := m 300 - 1))\<rparr>"

definition counted_example :: runtime where
  "counted_example =
     \<lparr>objects = [1 \<mapsto> \<lparr>typeMetadata = 3, witnessTable = counted_table, value = Some 100\<rparr>,
                 2 \<mapsto> \<lparr>typeMetadata = 3, witnessTable = counted_table, value = Some 200\<rparr>],
      descriptors = [3 \<mapsto> pair_type],
      storage = (\<lambda>a. if a = 100 then 3 else if a = 108 then 4 else if a = 300 then 2 else 0),
      calls = []\<rparr>"

text \<open>The counted handle with \<open>trivialCopy\<close> in the move slot of Value 1.\<close>

definition counted_flat_example :: runtime where
  "counted_flat_example =
     counted_example\<lparr>objects := (objects counted_example)
       (1 \<mapsto> \<lparr>typeMetadata = 3,
               witnessTable = counted_table\<lparr>move := copy_fn_trivialCopy\<rparr>,
               value = Some 100\<rparr>)\<rparr>"

text \<open>
  The pair example with a copy operation of the type's own in the copy slot of Value 1:
  a closure that writes the 16 bytes at 100 to the 16 bytes at 200 and then clears the
  bytes at 100.
\<close>

definition clearing_copy_example :: runtime where
  "clearing_copy_example =
     pair_example\<lparr>objects := (objects pair_example)
       (1 \<mapsto> \<lparr>typeMetadata = 3,
               witnessTable = trivialTable\<lparr>copy := copy_fn_closure
                 (\<lambda>dst src m a. if 200 \<le> a \<and> a < 216 then m (a - 100)
                    else if 100 \<le> a \<and> a < 116 then 0 else m a)\<rparr>,
               value = Some 100\<rparr>)\<rparr>"

text \<open>A layout of the two global objects of ManagedObject.cpp.\<close>

definition example_globals :: globals where
  "example_globals = \<lparr>addr_emptyBoxStorageMetadata = 16, addr_EmptyBoxStorage = 48\<rparr>"

text \<open>
  A boxed object at work: its copy closure takes the next free address of its world as
  the copy and moves the mark on by 8; its destroy closure does nothing.
\<close>

definition counting_box :: "nat ManagedObject" where
  "counting_box =
     ManagedObject_ctor (Some (\<lambda>v w. (w, w + 8))) (Some (\<lambda>v w. w)) 7 64"

section \<open>Byte copies\<close>

lemma regions_overlap:
  assumes "d < p + n" "p < d + n"
  shows "max d p \<in> region d n \<inter> region p n"
  using assms by (auto simp: region_def)

lemma memcpy_disjoint:
  assumes "region d n \<inter> region p n = {}"
  shows "memcpy d p n m = Inr (\<lambda>a. if a \<in> region d n then m (p + (a - d)) else m a)"
proof -
  have "\<not> (d < p + n \<and> p < d + n)"
    using assms regions_overlap [of d p n] by blast
  then show ?thesis
    by (simp add: memcpy_def region_def)
qed

lemma memcpy_Inr_dst:
  assumes "memcpy d p n m = Inr m1"
  shows "contents m1 d n = contents m p n"
  using assms unfolding memcpy_def contents_def
  by (auto split: if_splits)

lemma memcpy_Inr_frame:
  assumes "memcpy d p n m = Inr m1" "a \<notin> region d n"
  shows "m1 a = m a"
  using assms unfolding memcpy_def region_def
  by (auto split: if_splits)

lemma memcpy_Inr_src:
  assumes "memcpy d p n m = Inr m1"
  shows "contents m1 p n = contents m p n"
  using assms unfolding memcpy_def contents_def
  by (auto split: if_splits)

lemma copy_bytes_ok:
  assumes "objects s dst = Some dv" "objects s src = Some sv"
    and "descriptors s (getTypeMetadata dv) = Some tm"
    and "getValue dv = Some d" "getValue sv = Some p"
    and "region d (unat (sizeInBytes tm)) \<inter> region p (unat (sizeInBytes tm)) = {}"
  shows "\<exists>m. memcpy d p (unat (sizeInBytes tm)) (storage s) = Inr m
           \<and> copy_bytes dst src s = Inr (s\<lparr>storage := m\<rparr>)"
  using assms by (simp add: copy_bytes_def memcpy_disjoint)

lemma copy_bytes_keeps_objects:
  assumes "copy_bytes dst src s = Inr s1"
  shows "objects s1 = objects s \<and> descriptors s1 = descriptors s \<and> calls s1 = calls s"
  using assms by (auto simp: copy_bytes_def split: option.splits sum.splits)

lemma Value_destroy_trivial:
  assumes "objects s v = Some sv" "destroy (witnessTable sv) = destroy_fn_trivialDestroy"
  shows "Value_destroy v s = Inl MissingReturn"
  using assms by (simp add: Value_destroy_def trivialDestroy_def)

lemma Value_destroy_keeps_objects:
  assumes "Value_destroy v s = Inr s1"
  shows "objects s1 = objects s \<and> descriptors s1 = descriptors s"
  using assms
  by (auto simp: Value_destroy_def trivialDestroy_def record_call_def
      split: option.splits SiltDestroyFunction.splits)

text \<open>
  Whatever its slots hold, a call through the witness table leaves the Value objects and
  the descriptors as they were: the members of a Value are private and no member function
  assigns them. Only the storage is in the hands of the type's operations.
\<close>

lemma invoke_keeps_objects:
  assumes "invoke f dst src s = Inr s1"
  shows "objects s1 = objects s \<and> descriptors s1 = descriptors s"
proof (cases f)
  case copy_fn_empty
  with assms show ?thesis by (simp add: invoke_def)
next
  case copy_fn_trivialCopy
  with assms obtain t where "copy_bytes dst src s = Inr t" "s1 = t"
    by (auto simp: invoke_def trivialCopy_def split: sum.splits)
  then show ?thesis using copy_bytes_keeps_objects by blast
next
  case copy_fn_trivialMove
  with assms obtain t where t: "copy_bytes dst src s = Inr t" "Value_destroy src t = Inr s1"
    by (auto simp: invoke_def trivialMove_def split: sum.splits)
  then show ?thesis
    using copy_bytes_keeps_objects [OF t(1)] Value_destroy_keeps_objects [OF t(2)] by simp
next
  case (copy_fn_closure g)
  with assms show ?thesis by (auto simp: invoke_def)
qed

lemma Value_copy_keeps_objects:
  assumes "Value_copy src dst s = Inr s1"
  shows "objects s1 = objects s \<and> descriptors s1 = descriptors s"
proof -
  from assms obtain v :: Value where
    "invoke (copy (witnessTable v)) dst src (record_call (CopyCall dst src) s) = Inr s1"
    by (cases "objects s src") (auto simp: Value_copy_def)
  from invoke_keeps_objects [OF this] show ?thesis
    by (simp add: record_call_def)
qed

text \<open>
  What \<open>trivialCopy\<close> does between two Values over disjoint storage: it returns the
  destination, the destination's storage holds the source's bytes, and nothing else is
  changed.
\<close>

lemma trivialCopy_copies_exactly:
  assumes "objects s dst = Some dv" "objects s src = Some sv"
    and "descriptors s (getTypeMetadata dv) = Some tm"
    and "getValue dv = Some d" "getValue sv = Some p"
    and "region d (unat (sizeInBytes tm)) \<inter> region p (unat (sizeInBytes tm)) = {}"
  shows "\<exists>sc. trivialCopy dst src s = Inr (dst, sc) \<and>
      contents (storage sc) d (unat (sizeInBytes tm))
        = contents (storage s) p (unat (sizeInBytes tm)) \<and>
      (\<forall>a. a \<notin> region d (unat (sizeInBytes tm)) \<longrightarrow> storage sc a = storage s a) \<and>
      objects sc = objects s \<and> descriptors sc = descriptors s \<and> calls sc = calls s"
proof -
  from copy_bytes_ok [OF assms]
  obtain m where m: "memcpy d p (unat (sizeInBytes tm)) (storage s) = Inr m"
    and cb: "copy_bytes dst src s = Inr (s\<lparr>storage := m\<rparr>)"
    by auto
  have "\<forall>a. a \<notin> region d (unat (sizeInBytes tm)) \<longrightarrow> m a = storage s a"
    using memcpy_Inr_frame [OF m] by blast
  then show ?thesis
    using cb memcpy_Inr_dst [OF m] by (simp add: trivialCopy_def)
qed

text \<open>
  With \<open>trivialDestroy\<close> in the source's table, \<open>trivialMove\<close> does not return where
  \<open>trivialCopy\<close> does: the call of destroy on the source flows off the end of
  \<open>trivialDestroy\<close>.
\<close>

lemma trivialMove_trivial_destroy:
  assumes "objects s src = Some sv" "destroy (witnessTable sv) = destroy_fn_trivialDestroy"
  shows "trivialMove dst src s
       = (case trivialCopy dst src s of Inl e \<Rightarrow> Inl e | Inr r \<Rightarrow> Inl MissingReturn)"
proof (cases "copy_bytes dst src s")
  case (Inl e)
  then show ?thesis by (simp add: trivialMove_def trivialCopy_def)
next
  case (Inr s1)
  then have "objects s1 = objects s"
    using copy_bytes_keeps_objects by blast
  then have "Value_destroy src s1 = Inl MissingReturn"
    using assms Value_destroy_trivial [of s1 src sv] by simp
  with Inr show ?thesis by (simp add: trivialMove_def trivialCopy_def)
qed

text \<open>
  \<open>initializeWithTake\<close> is \<open>silt_moveValue\<close> followed by one more call of destroy on the
  source: on every input the two paths differ by that call.
\<close>

lemma initializeWithTake_is_moveValue_then_destroy:
  "initializeWithTake dst src s =
     (case silt_moveValue dst src s of
        Inl e \<Rightarrow> Inl e
      | Inr (r, s1) \<Rightarrow> Value_destroy src s1)"
  by (simp add: initializeWithTake_def silt_moveValue_def split: sum.splits)

lemma pair_contents:
  "contents (storage pair_example) 100 16 = [3, 0, 0, 0, 0, 0, 0, 0, 4, 0, 0, 0, 0, 0, 0, 0]"
  by (simp add: contents_def pair_example_def upt_rec)

lemma pair_fresh: "region (200::nat) 16 \<inter> region 100 16 = {}"
  by (auto simp: region_def)

lemma pair_copied:
  "contents (\<lambda>a. if 200 \<le> a \<and> a < 216 then storage pair_example (100 + (a - 200))
                 else storage pair_example a) 200 16
     = [3, 0, 0, 0, 0, 0, 0, 0, 4, 0, 0, 0, 0, 0, 0, 0]"
  by (simp add: contents_def pair_example_def upt_rec)

lemma memcpy_pair:
  "memcpy 200 100 16 m
     = Inr (\<lambda>a. if 200 \<le> a \<and> a < 216 then m (100 + (a - 200)) else m a)"
  by (simp add: memcpy_def)

lemma allocEmptyBox_funpow: "((\<lambda>t. snd (silt_allocEmptyBox g t)) ^^ n) s = s"
  by (induction n) (simp_all add: silt_allocEmptyBox_def)

section \<open>The claims about Value\<close>

text \<open>
  C1. For every Value of a registered type T, the boundary move (\<open>silt_moveValue\<close>, and
  moving into a destination with \<open>initializeWithTake\<close>) into a fresh, valid,
  uninitialised destination invokes T's move operation exactly once and T's destroy
  operation on the source exactly once, and never T's copy operation.

  The calls are evaluated on both paths. For the counted handle, whose destroy returns
  and counts: with \<open>trivialMove\<close> in the move slot, which destroys its source itself,
  \<open>initializeWithTake\<close> calls destroy on the source twice and the counter goes from 2
  to 0, while \<open>silt_moveValue\<close> calls it once; with a move that only copies the bytes,
  \<open>initializeWithTake\<close> calls destroy once and \<open>silt_moveValue\<close> not at all. For the
  trivial table neither path returns, since the destroy that \<open>trivialMove\<close> calls is
  \<open>trivialDestroy\<close>. Copy is called on no path.
\<close>

theorem move_paths_destroy_calls:
  "map_sum id (\<lambda>t. (calls t, storage t 300)) (initializeWithTake 2 1 counted_example)
     = Inr ([MoveCall 2 1, DestroyCall 1, DestroyCall 1], 0) \<and>
   map_sum id (\<lambda>r. (calls (snd r), storage (snd r) 300)) (silt_moveValue 2 1 counted_example)
     = Inr ([MoveCall 2 1, DestroyCall 1], 1) \<and>
   map_sum id (\<lambda>t. (calls t, storage t 300)) (initializeWithTake 2 1 counted_flat_example)
     = Inr ([MoveCall 2 1, DestroyCall 1], 1) \<and>
   map_sum id (\<lambda>r. (calls (snd r), storage (snd r) 300))
       (silt_moveValue 2 1 counted_flat_example)
     = Inr ([MoveCall 2 1], 2) \<and>
   map_sum id (calls \<circ> snd) (silt_moveValue 2 1 flat_move_example)
     = Inr [MoveCall 2 1] \<and>
   initializeWithTake 2 1 pair_example = Inl MissingReturn \<and>
   silt_moveValue 2 1 pair_example = Inl MissingReturn \<and>
   initializeWithTake 2 1 flat_move_example = Inl MissingReturn"
  by (simp add: initializeWithTake_def silt_moveValue_def Value_move_def Value_destroy_def
      invoke_def trivialMove_def trivialCopy_def copy_bytes_def trivialDestroy_def
      record_call_def getTypeMetadata_def getValue_def trivialTable_def counted_table_def
      pair_example_def flat_move_example_def counted_example_def counted_flat_example_def
      pair_type_def memcpy_pair)

text \<open>
  C2. Constructing a Value from a descriptor, an operation table and storage supplied by
  the caller binds the Value over that storage: \<open>getValue\<close> then gives exactly the
  storage passed in, and the constructor allocates nothing.

  The constructor of the source takes the descriptor and the table and nothing else. For
  a caller that holds the storage at 100, the new Value has the descriptor and the table
  it was given, and a storage pointer that was never set. The constructor of
  \<open>ManagedObject\<close>, next to it, does take the value pointer and stores it.
\<close>

theorem Value_ctor_leaves_value_unset:
  "getValue (Value_ctor 3 trivialTable) = None \<and>
   getValue (Value_ctor 3 trivialTable) \<noteq> Some 100 \<and>
   getTypeMetadata (Value_ctor 3 trivialTable) = 3 \<and>
   getWitnessTable (Value_ctor 3 trivialTable) = trivialTable \<and>
   ManagedObject.value (ManagedObject_ctor None None 3 100 :: unit ManagedObject) = 100"
  by (simp add: Value_ctor_def getValue_def getTypeMetadata_def getWitnessTable_def
      ManagedObject_ctor_def)

text \<open>
  C3. For a Value of a type with the trivial operation table, source and destination
  having metadata of the same size \<open>sz\<close>: the trivial copy writes exactly \<open>sz\<close> bytes of
  the source's storage into the destination's storage, and the trivial destroy changes
  nothing. So after a value holding bytes B is copied into a fresh buffer and the
  original is destroyed, the copy's storage still holds B.

  Evaluated on the pair (3, 4): the copy returns, through \<open>trivialCopy\<close> and through
  \<open>Value::copy\<close>, and the 16 bytes at 200 then hold (3, 4). Destroying the original
  afterwards does not return: \<open>trivialDestroy\<close> has no return statement for the pointer
  it is declared to return.
\<close>

theorem trivial_destroy_after_copy_undefined:
  "map_sum id (\<lambda>r. (fst r, contents (storage (snd r)) 200 16)) (trivialCopy 2 1 pair_example)
     = Inr (2, [3, 0, 0, 0, 0, 0, 0, 0, 4, 0, 0, 0, 0, 0, 0, 0]) \<and>
   map_sum id (\<lambda>t. contents (storage t) 200 16) (Value_copy 1 2 pair_example)
     = Inr [3, 0, 0, 0, 0, 0, 0, 0, 4, 0, 0, 0, 0, 0, 0, 0] \<and>
   trivialDestroy 1 pair_example = Inl MissingReturn \<and>
   Value_destroy 1 pair_example = Inl MissingReturn \<and>
   (case Value_copy 1 2 pair_example of
      Inl e \<Rightarrow> Inl e
    | Inr s1 \<Rightarrow> Value_destroy 1 s1) = Inl MissingReturn"
  by (simp add: Value_copy_def Value_destroy_def invoke_def trivialCopy_def copy_bytes_def
      trivialDestroy_def record_call_def getTypeMetadata_def getValue_def trivialTable_def
      memcpy_pair pair_copied [simplified]
      pair_example_def pair_type_def contents_def upt_rec)

text \<open>
  C4. For every Value and every valid, non-aliasing, uninitialised destination of the
  same type, the copy (\<open>Value::copy\<close>, \<open>initializeWithCopy\<close>, \<open>silt_copyValue\<close>) leaves
  the source as it was: its descriptor, its operation table, its storage pointer and
  the bytes of its storage are the same after the copy as before, and the two storages
  do not alias afterwards.

  The copy operation is whatever the copy slot of the Value's table holds. With a
  closure there that writes the source's bytes to the destination and clears the
  source, \<open>silt_copyValue\<close> returns the destination and the first byte of the source's
  storage, 3 before the copy, is 0 after it.
\<close>

theorem copy_closure_changes_source:
  "map_sum id (\<lambda>r. (fst r, storage (snd r) 100)) (silt_copyValue 2 1 clearing_copy_example)
     = Inr (2, 0) \<and>
   storage clearing_copy_example 100 = 3"
  by (simp add: silt_copyValue_def Value_copy_def invoke_def record_call_def
      clearing_copy_example_def pair_example_def)

text \<open>
  C4, as amended. For every Value and every valid, non-aliasing, uninitialised
  destination of the same type, a copy that returns leaves the source's descriptor, its
  operation table and its storage pointer as they were, and the two storages do not
  alias afterwards. When the copy operation of the Value is \<open>trivialCopy\<close>, the copy
  returns and the bytes of the source's storage are as they were, too.
\<close>

theorem copy_leaves_source_unchanged:
  assumes src: "objects s src = Some sv" and dst: "objects s dst = Some dv"
    and meta: "descriptors s (getTypeMetadata sv) = Some stm"
      "descriptors s (getTypeMetadata dv) = Some dtm"
    and same: "sizeInBytes dtm = sizeInBytes stm"
    and ptrs: "getValue sv = Some p" "getValue dv = Some d"
    and apart: "region d (unat (sizeInBytes stm)) \<inter> region p (unat (sizeInBytes stm)) = {}"
  shows "(\<forall>s1. Value_copy src dst s = Inr s1 \<longrightarrow>
            initializeWithCopy dst src s = Inr s1 \<and>
            silt_copyValue dst src s = Inr (dst, s1) \<and>
            objects s1 src = Some sv \<and>
            descriptors s1 (getTypeMetadata sv) = Some stm \<and>
            objects s1 dst = Some dv \<and>
            region d (unat (sizeInBytes stm)) \<inter> region p (unat (sizeInBytes stm)) = {}) \<and>
         (copy (witnessTable sv) = copy_fn_trivialCopy \<longrightarrow>
            (\<exists>s1. Value_copy src dst s = Inr s1 \<and>
               initializeWithCopy dst src s = Inr s1 \<and>
               silt_copyValue dst src s = Inr (dst, s1) \<and>
               objects s1 src = Some sv \<and>
               descriptors s1 (getTypeMetadata sv) = Some stm \<and>
               contents (storage s1) p (unat (sizeInBytes stm))
                 = contents (storage s) p (unat (sizeInBytes stm)) \<and>
               objects s1 dst = Some dv \<and>
               region d (unat (sizeInBytes stm)) \<inter> region p (unat (sizeInBytes stm)) = {}))"
proof (intro conjI allI impI)
  fix s1
  assume ret: "Value_copy src dst s = Inr s1"
  from Value_copy_keeps_objects [OF ret]
  have kept: "objects s1 = objects s" "descriptors s1 = descriptors s"
    by simp_all
  show "initializeWithCopy dst src s = Inr s1"
    using ret by (simp add: initializeWithCopy_def)
  show "silt_copyValue dst src s = Inr (dst, s1)"
    using ret by (simp add: silt_copyValue_def)
  show "objects s1 src = Some sv"
    using kept src by simp
  show "descriptors s1 (getTypeMetadata sv) = Some stm"
    using kept meta(1) by simp
  show "objects s1 dst = Some dv"
    using kept dst by simp
  show "region d (unat (sizeInBytes stm)) \<inter> region p (unat (sizeInBytes stm)) = {}"
    using apart .
next
  assume op: "copy (witnessTable sv) = copy_fn_trivialCopy"
  let ?n = "unat (sizeInBytes stm)"
  let ?t = "record_call (CopyCall dst src) s"
  have "\<exists>m. memcpy d p (unat (sizeInBytes dtm)) (storage ?t) = Inr m
           \<and> copy_bytes dst src ?t = Inr (?t\<lparr>storage := m\<rparr>)"
    using copy_bytes_ok [of ?t dst dv src sv dtm d p] dst src meta(2) ptrs apart same
    by (simp add: record_call_def)
  then obtain m where m: "memcpy d p ?n (storage s) = Inr m"
    and cb: "copy_bytes dst src ?t = Inr (?t\<lparr>storage := m\<rparr>)"
    using same by (auto simp: record_call_def)
  let ?s1 = "?t\<lparr>storage := m\<rparr>"
  have copy: "Value_copy src dst s = Inr ?s1"
    using src op cb by (simp add: Value_copy_def invoke_def trivialCopy_def)
  have kept: "contents m p ?n = contents (storage s) p ?n"
    using memcpy_Inr_src [OF m] .
  show "\<exists>s1. Value_copy src dst s = Inr s1 \<and>
      initializeWithCopy dst src s = Inr s1 \<and>
      silt_copyValue dst src s = Inr (dst, s1) \<and>
      objects s1 src = Some sv \<and>
      descriptors s1 (getTypeMetadata sv) = Some stm \<and>
      contents (storage s1) p ?n = contents (storage s) p ?n \<and>
      objects s1 dst = Some dv \<and>
      region d ?n \<inter> region p ?n = {}"
    apply (rule exI [of _ ?s1])
    using copy kept src dst meta(1) apart
    by (simp add: initializeWithCopy_def silt_copyValue_def record_call_def)
qed

theorem copy_leaves_source_unchanged_witness:
  "\<exists>s1. silt_copyValue 2 1 pair_example = Inr (2, s1) \<and>
     objects s1 1 = Some \<lparr>typeMetadata = 3, witnessTable = trivialTable, value = Some 100\<rparr> \<and>
     descriptors s1 3 = Some pair_type \<and>
     contents (storage s1) 100 16 = [3, 0, 0, 0, 0, 0, 0, 0, 4, 0, 0, 0, 0, 0, 0, 0]"
proof -
  have "\<exists>s1. silt_copyValue 2 1 pair_example = Inr (2, s1) \<and>
     objects s1 1 = Some \<lparr>typeMetadata = 3, witnessTable = trivialTable, value = Some 100\<rparr> \<and>
     descriptors s1 3 = Some pair_type \<and>
     contents (storage s1) 100 16 = contents (storage pair_example) 100 16"
    using copy_leaves_source_unchanged [of pair_example 1
        "\<lparr>typeMetadata = 3, witnessTable = trivialTable, value = Some 100\<rparr>"
        2 "\<lparr>typeMetadata = 3, witnessTable = trivialTable, value = Some 200\<rparr>"
        pair_type pair_type 100 200] pair_fresh
    apply (simp add: pair_example_def getTypeMetadata_def getValue_def pair_type_def
        trivialTable_def)
    apply blast
    done
  then show ?thesis by (simp only: pair_contents)
qed

text \<open>
  C9. For Values bound to the trivial operation table, with the same type metadata on
  source and destination, the trivial move does what the trivial copy does: both leave
  the destination's storage holding the source's bytes and both leave the source as it
  was, since the destroy that the trivial move calls on the source is the trivial one
  and does nothing.

  Evaluated on the pair (3, 4): \<open>trivialCopy\<close> returns the destination, whose storage
  then holds (3, 4). \<open>trivialMove\<close> copies the same bytes and then calls destroy on the
  source, which is \<open>trivialDestroy\<close> and has no return statement for the pointer it is
  declared to return: \<open>trivialMove\<close> does not return.
\<close>

theorem trivialMove_undefined_where_trivialCopy_returns:
  "map_sum id (\<lambda>r. (fst r, contents (storage (snd r)) 200 16, contents (storage (snd r)) 100 16))
       (trivialCopy 2 1 pair_example)
     = Inr (2, [3, 0, 0, 0, 0, 0, 0, 0, 4, 0, 0, 0, 0, 0, 0, 0],
               [3, 0, 0, 0, 0, 0, 0, 0, 4, 0, 0, 0, 0, 0, 0, 0]) \<and>
   trivialMove 2 1 pair_example = Inl MissingReturn"
  by (simp add: trivialMove_def Value_destroy_def trivialCopy_def copy_bytes_def
      trivialDestroy_def record_call_def getTypeMetadata_def getValue_def trivialTable_def
      memcpy_pair pair_example_def pair_type_def contents_def upt_rec)

section \<open>The claims about boxed objects and the empty box\<close>

text \<open>
  C5. For every boxed object \<open>b\<close>, \<open>b.copy()\<close> returns a new boxed object whose copy
  closure, destroy closure and type descriptor are those of \<open>b\<close>, and whose value is the
  result of applying \<open>b\<close>'s copy closure to \<open>b\<close>'s value; \<open>b\<close> itself is unchanged.

  The empty box is a boxed object built from four null pointers, so its copy closure
  holds no target: copying the object that \<open>silt_allocEmptyBox\<close> hands out throws
  \<open>std::bad_function_call\<close> and returns no object.
\<close>

theorem empty_box_copy_throws:
  "ManagedObject_copy (fst (silt_allocEmptyBox example_globals (static_init example_globals ())))
     (static_init example_globals ()) = Inl BadFunctionCall"
  by (simp add: ManagedObject_copy_def silt_allocEmptyBox_def static_init_def
      example_globals_def emptyBoxStorageMetadata_def ManagedObject_ctor_def)

text \<open>
  C5, as amended. For every boxed object \<open>b\<close> whose copy closure holds a target,
  \<open>b.copy()\<close> returns a new boxed object with the closures and the descriptor of \<open>b\<close>
  and with the value the copy closure gives for \<open>b\<close>'s value, and \<open>b\<close> is unchanged.
  When the copy closure is empty, \<open>copy()\<close> throws \<open>std::bad_function_call\<close>.
\<close>

theorem ManagedObject_copy_shares_closures:
  assumes "boxes s this = Some b"
  shows "(\<forall>f. copyImpl b = Some f \<longrightarrow>
            (\<exists>r s1. ManagedObject_copy this s = Inr (r, s1) \<and>
               copyImpl r = copyImpl b \<and> destroyImpl r = destroyImpl b \<and>
               metadata r = metadata b \<and>
               (ManagedObject.value r, world s1) = f (ManagedObject.value b) (world s) \<and>
               boxes s1 = boxes s \<and> boxes s1 this = Some b)) \<and>
         (copyImpl b = None \<longrightarrow> ManagedObject_copy this s = Inl BadFunctionCall)"
  using assms
  by (auto simp: ManagedObject_copy_def ManagedObject_ctor_def split: prod.splits)

theorem ManagedObject_copy_shares_closures_witness:
  "\<exists>r s1. ManagedObject_copy 5 \<lparr>boxes = [5 \<mapsto> counting_box], world = 128\<rparr> = Inr (r, s1) \<and>
     copyImpl r = copyImpl counting_box \<and> destroyImpl r = destroyImpl counting_box \<and>
     metadata r = 7 \<and> ManagedObject.value r = 128 \<and> world s1 = 136 \<and>
     boxes s1 5 = Some counting_box"
  using ManagedObject_copy_shares_closures
    [of "\<lparr>boxes = [5 \<mapsto> counting_box], world = 128\<rparr>" 5 counting_box]
  apply (simp add: counting_box_def ManagedObject_ctor_def)
  apply blast
  done

text \<open>
  C6. Every call of \<open>silt_allocEmptyBox\<close> returns a handle to the same singleton, the
  empty box: two calls, one after the other or in different states, give the same
  pointer, the address of \<open>_EmptyBoxStorage\<close>, behind which the empty box lies after
  static initialisation; and a call allocates nothing, since it leaves the state as it
  found it.
\<close>

theorem allocEmptyBox_same_singleton:
  "fst (silt_allocEmptyBox g s) = addr_EmptyBoxStorage g \<and>
   fst (silt_allocEmptyBox g (snd (silt_allocEmptyBox g s))) = fst (silt_allocEmptyBox g s) \<and>
   fst (silt_allocEmptyBox g s') = fst (silt_allocEmptyBox g s) \<and>
   snd (silt_allocEmptyBox g s) = s \<and>
   boxes (static_init g w) (fst (silt_allocEmptyBox g s)) = Some emptyBoxStorageMetadata"
  by (simp add: silt_allocEmptyBox_def static_init_def)

text \<open>
  C10. \<open>silt_allocEmptyBox\<close> does not change the empty box: after any number \<open>n\<close> of
  calls the state is the one before them, and the singleton still has the four null
  members it was initialised with (both closures, the metadata pointer, the value
  pointer). No count of references is kept or incremented.
\<close>

theorem allocEmptyBox_leaves_singleton:
  "((\<lambda>t. snd (silt_allocEmptyBox g t)) ^^ n) s = s \<and>
   boxes (((\<lambda>t. snd (silt_allocEmptyBox g t)) ^^ n) (static_init g w)) (addr_EmptyBoxStorage g)
     = Some \<lparr>copyImpl = None, destroyImpl = None, metadata = nullptr, value = nullptr\<rparr>"
  by (simp add: allocEmptyBox_funpow static_init_def emptyBoxStorageMetadata_def
      ManagedObject_ctor_def)

section \<open>The claims about the allocator and the crash\<close>

text \<open>
  C7. For every \<open>n > 0\<close>, \<open>silt_alloc(n)\<close> either returns the pointer that \<open>malloc\<close> gave
  for \<open>n\<close> bytes, which is not null, or, when \<open>malloc\<close> gave null, writes its diagnostic
  and ends the process without returning. It never returns null to its caller.
\<close>

theorem silt_alloc_never_null:
  assumes "0 < unat n"
  shows "((\<exists>ptr p1. malloc n p = (ptr, p1) \<and> ptr \<noteq> nullptr \<and>
            silt_alloc malloc n p = Returned ptr p1) \<or>
          (\<exists>p1. malloc n p = (nullptr, p1) \<and>
            silt_alloc malloc n p
              = Aborted (p1\<lparr>stderr := stderr p1 @ ''silt_alloc failed to allocate memory''
                                      @ [CHR 0x0A]\<rparr>))) \<and>
         (\<forall>q. silt_alloc malloc n p \<noteq> Returned nullptr q)"
  by (cases "malloc n p") (simp add: silt_alloc_def crash_def fputs_def fputc_def)

theorem silt_alloc_never_null_witness:
  "silt_alloc (\<lambda>n q. (4096, q)) 8 \<lparr>stderr = [], heap = ()\<rparr>
     = Returned 4096 \<lparr>stderr = [], heap = ()\<rparr> \<and>
   silt_alloc (\<lambda>n q. (nullptr, q)) 8 \<lparr>stderr = [], heap = ()\<rparr>
     = Aborted \<lparr>stderr = ''silt_alloc failed to allocate memory'' @ [CHR 0x0A], heap = ()\<rparr>"
  using silt_alloc_never_null [of 8 "\<lambda>n q. (4096, q)" "\<lparr>stderr = [], heap = ()\<rparr>"]
    silt_alloc_never_null [of 8 "\<lambda>n q. (nullptr, q)" "\<lparr>stderr = [], heap = ()\<rparr>"]
  by (simp add: nullptr_def)

text \<open>
  C8. For every message, \<open>silt::crash(message)\<close> writes the message and then a newline
  to \<open>stderr\<close>, so that what it writes is not empty even for an empty message, and then
  ends the process: it never returns to its caller.
\<close>

theorem crash_writes_and_aborts:
  "(crash message p :: ('a, 'h) outcome)
     = Aborted (p\<lparr>stderr := stderr p @ message @ [CHR 0x0A]\<rparr>) \<and>
   (\<forall>(r :: 'a) q. crash message p \<noteq> Returned r q) \<and>
   message @ [CHR 0x0A] \<noteq> []"
  by (simp add: crash_def fputs_def fputc_def)

end
